theory Spec2Isabelle
  imports Complex_Main "HOL-Library.Sublist"
begin

section \<open>The glass-window stereo DIC script and its collaborators\<close>

text \<open>
  The program is \<^verbatim>\<open>src/blender/run_blender_glass.py\<close>: one straight-line script with a
  single branch (the stereo-rig selector).  Everything it does is a call into a library it
  does not own (pyvale's \<^verbatim>\<open>dataset\<close>, \<^verbatim>\<open>mooseherder\<close>, \<^verbatim>\<open>sensorsim\<close> and \<^verbatim>\<open>blender\<close>
  modules) or a statement on Blender's \<^verbatim>\<open>bpy.data\<close> registries.

  The model keeps the script's statements in order.  A collaborator call is answered by
  the host, a parameter of the model: the host sees the whole interaction so far and
  either raises or returns an opaque object.  Every call is written to a trace together
  with its outcome, so that what has been constructed at any moment can be read off.
  The statements on \<^verbatim>\<open>bpy.data\<close> act on an explicit store of materials and objects keyed
  by name, where a subscript with a missing key raises \<^verbatim>\<open>KeyError\<close>.
\<close>

subsection \<open>Values\<close>

text \<open>An object handed out by a collaborator; the script never looks inside one.\<close>

datatype obj = Obj nat

text \<open>
  A path is either an object returned by a collaborator or \<^verbatim>\<open>Path.cwd() / s\<close>
  for a literal \<^verbatim>\<open>s\<close>.
\<close>

datatype pathlike = Lib obj | Cwd_rel string

text \<open>
  Numeric literals are kept as the decimal numbers written in the script
  (\<^verbatim>\<open>0.00345\<close> is \<open>345 / 100000\<close>).  \<^verbatim>\<open>Rotation.from_euler(seq, angles, degrees=d)\<close>
  is kept as the triple of its arguments; \<open>degrees\<close> defaults to \<open>False\<close>.
\<close>

datatype rotation = From_euler string "rat list" bool

record camera_data =
  pixels_num :: "rat list"
  pixels_size :: "rat list"
  cam_pos_world :: "rat list"
  cam_rot_world :: rotation
  roi_cent_world :: "rat list"
  focal_length :: rat

datatype light_type = POINT | SUN | SPOT | AREA

record light_data =
  ltype :: light_type
  light_pos_world :: "rat list"
  light_rot_world :: rotation
  energy :: rat

datatype error =
    ValueError string
  | KeyError string
  | AttributeError string
  | RuntimeError string
  | Raised string

subsection \<open>Collaborator calls\<close>

text \<open>
  One constructor for each call, attribute read or protocol use the script makes on a
  collaborator object, with the arguments in the order of the source.  The statements on
  \<^verbatim>\<open>bpy.data\<close> of lines 137 to 145 come first, as a type of their own: a material is named
  by its key, a node by the key of its material and its own, a socket by its node's name
  and its own.
\<close>

datatype sockval = Num rat | Vec "rat list"

datatype statement =
    Materials_new string
  | Set_use_nodes string bool
  | Node_tree_nodes string
  | Nodes_new string string
  | Set_input_default string string string sockval
  | Input_socket string string string
  | Output_socket string string string
  | Links_new string string string string string
  | Set_active_material string string

datatype call =
    Render_mechanical_3d_path
  | ExodusReader pathlike
  | Read_all_sim_data obj
  | Scale_length_units rat obj "string list"
  | Create_render_mesh obj "string list" int "string list"
  | Scene
  | Add_part obj obj int
  | Move_blender_obj obj "rat list"
  | Rotate_blender_obj obj rotation
  | CameraData camera_data
  | Symmetric_stereo_cameras obj rat
  | Faceon_stereo_cameras obj rat
  | Add_stereo_system obj obj
  | Unpack_pair obj
  | Save_calibration obj pathlike
  | LightData light_data
  | Add_light obj obj
  | MaterialData
  | Dic_pattern_5mpx_path
  | Calculate_mm_px_resolution obj
  | Add_speckle obj obj obj obj obj
  | Get_cam_data_0 obj
  | Get_cam_data_1 obj
  | RenderData obj obj pathlike int int
  | Render_deformed_images obj obj int obj obj bool
  | Get_base_dir obj
  | Path_div obj string
  | Print string obj
  | Save_blender_file pathlike bool
  | Bpy_data statement

type_synonym event = "call \<times> (error + obj)"

subsection \<open>The \<^verbatim>\<open>bpy.data\<close> store\<close>

record node =
  bl_idname :: string
  inputs :: "string \<rightharpoonup> sockval"
  outputs :: "string list"

record link =
  from_node :: string
  from_socket :: string
  to_node :: string
  to_socket :: string

record node_tree =
  nodes :: "string \<rightharpoonup> node"
  links :: "link list"

record material =
  use_nodes :: bool
  mat_node_tree :: "node_tree option"

record blender_object =
  active_material :: "string option"

record bpy_data =
  materials :: "string \<rightharpoonup> material"
  objects :: "string \<rightharpoonup> blender_object"

subsection \<open>The host\<close>

text \<open>
  \<open>respond\<close> answers a collaborator call from the interaction so far and the store, and
  may change the store (\<^verbatim>\<open>add_part\<close> registers an object, \<^verbatim>\<open>add_speckle\<close> a material).
  The other three fields are what Blender decides when the script creates a data-block
  or a node: the name it registers it under given the names taken, the node tree a
  material gets when nodes are switched on, and the default name and sockets of a node
  of a given type.
\<close>

record host =
  respond :: "event list \<Rightarrow> call \<Rightarrow> bpy_data \<Rightarrow> (error + obj) \<times> bpy_data"
  assigned_name :: "string \<Rightarrow> (string \<Rightarrow> bool) \<Rightarrow> string"
  default_tree :: node_tree
  node_of_type :: "string \<rightharpoonup> string \<times> node"

subsection \<open>Running statements\<close>

record state =
  trace :: "event list"
  bdata :: bpy_data

type_synonym 'a prog = "state \<Rightarrow> (error + 'a) \<times> state"

definition ret :: "'a \<Rightarrow> 'a prog" where
  "ret x = (\<lambda>s. (Inr x, s))"

definition raise :: "error \<Rightarrow> 'a prog" where
  "raise e = (\<lambda>s. (Inl e, s))"

text \<open>Sequencing: an exception of the first statement ends the run where it stands.\<close>

definition pbind :: "'a prog \<Rightarrow> ('a \<Rightarrow> 'b prog) \<Rightarrow> 'b prog" where
  "pbind m f = (\<lambda>s. case m s of (Inl e, s') \<Rightarrow> (Inl e, s') | (Inr x, s') \<Rightarrow> f x s')"

definition call :: "host \<Rightarrow> call \<Rightarrow> obj prog" where
  "call h c = (\<lambda>s. case respond h (trace s) c (bdata s) of
      (r, bd) \<Rightarrow> (r, \<lparr>trace = trace s @ [(c, r)], bdata = bd\<rparr>))"

text \<open>
  A statement on \<^verbatim>\<open>bpy.data\<close>: the store answers it, not the host.  It is written to the
  trace like a call, with its error when it raises and with \<open>Obj 0\<close> when it completes;
  the value it produced, a reference into the store, goes to the statements that follow.
\<close>

definition on_store :: "statement \<Rightarrow> (bpy_data \<Rightarrow> error + 'a \<times> bpy_data) \<Rightarrow> 'a prog" where
  "on_store c f = (\<lambda>s. case f (bdata s) of
      Inl e \<Rightarrow> (Inl e, \<lparr>trace = trace s @ [(Bpy_data c, Inl e)], bdata = bdata s\<rparr>)
    | Inr (x, bd) \<Rightarrow> (Inr x, \<lparr>trace = trace s @ [(Bpy_data c, Inr (Obj 0))], bdata = bd\<rparr>))"

subsection \<open>Statements on \<^verbatim>\<open>bpy.data\<close> (lines 137 to 145)\<close>

text \<open>
  A material, a node and a socket are referred to by the names they are registered under:
  the script itself re-resolves them by name in every statement but two (\<^verbatim>\<open>mat_nodes\<close>
  and \<^verbatim>\<open>glass\<close>, the references it keeps), and nothing renames a data-block in between.
\<close>

text \<open>\<^verbatim>\<open>bpy.data.materials.new(name)\<close>: a material without nodes, under the name the host assigns.\<close>

definition materials_new :: "host \<Rightarrow> string \<Rightarrow> bpy_data \<Rightarrow> error + string \<times> bpy_data" where
  "materials_new h name bd =
     (let nm = assigned_name h name (\<lambda>n. materials bd n \<noteq> None) in
      Inr (nm, bd\<lparr>materials := (materials bd)(nm \<mapsto> \<lparr>use_nodes = False, mat_node_tree = None\<rparr>)\<rparr>))"

text \<open>\<^verbatim>\<open>bpy.data.materials[k]\<close> and \<^verbatim>\<open>bpy.data.materials[k].node_tree\<close>, as lookups.\<close>

definition materials_getitem :: "string \<Rightarrow> bpy_data \<Rightarrow> error + material" where
  "materials_getitem k bd = (case materials bd k of None \<Rightarrow> Inl (KeyError k) | Some m \<Rightarrow> Inr m)"

definition tree_of :: "string \<Rightarrow> bpy_data \<Rightarrow> error + material \<times> node_tree" where
  "tree_of k bd =
     (case materials_getitem k bd of
        Inl e \<Rightarrow> Inl e
      | Inr m \<Rightarrow> (case mat_node_tree m of
                    None \<Rightarrow> Inl (AttributeError ''NoneType has no attribute nodes'')
                  | Some t \<Rightarrow> Inr (m, t)))"

definition put_tree :: "string \<Rightarrow> material \<Rightarrow> node_tree \<Rightarrow> bpy_data \<Rightarrow> bpy_data" where
  "put_tree k m t bd = bd\<lparr>materials := (materials bd)(k \<mapsto> m\<lparr>mat_node_tree := Some t\<rparr>)\<rparr>"

text \<open>
  \<^verbatim>\<open>bpy.data.materials[k].use_nodes = b\<close>: switching nodes on gives a material that has no
  node tree yet the host's default one.
\<close>

definition set_use_nodes :: "host \<Rightarrow> string \<Rightarrow> bool \<Rightarrow> bpy_data \<Rightarrow> error + unit \<times> bpy_data" where
  "set_use_nodes h k b bd =
     (case materials_getitem k bd of
        Inl e \<Rightarrow> Inl e
      | Inr m \<Rightarrow>
          Inr ((), bd\<lparr>materials := (materials bd)(k \<mapsto>
                 m\<lparr>use_nodes := b,
                   mat_node_tree := (if b \<and> mat_node_tree m = None then Some (default_tree h)
                                     else mat_node_tree m)\<rparr>)\<rparr>))"

text \<open>\<^verbatim>\<open>bpy.data.materials[k].node_tree.nodes\<close>: the node collection of material \<open>k\<close>.\<close>

definition node_tree_nodes :: "string \<Rightarrow> bpy_data \<Rightarrow> error + string \<times> bpy_data" where
  "node_tree_nodes k bd = (case tree_of k bd of Inl e \<Rightarrow> Inl e | Inr _ \<Rightarrow> Inr (k, bd))"

text \<open>
  \<^verbatim>\<open>mat_nodes.new(type=ty)\<close>: a node of that type, under the name the host assigns from
  the type's default name; the result is the reference to the new node.
\<close>

definition nodes_new :: "host \<Rightarrow> string \<Rightarrow> string \<Rightarrow> bpy_data \<Rightarrow> error + (string \<times> string) \<times> bpy_data" where
  "nodes_new h k ty bd =
     (case tree_of k bd of
        Inl e \<Rightarrow> Inl e
      | Inr (m, t) \<Rightarrow>
          (case node_of_type h ty of
             None \<Rightarrow> Inl (RuntimeError ty)
           | Some (base, nd) \<Rightarrow>
               (let nm = assigned_name h base (\<lambda>n. nodes t n \<noteq> None) in
                Inr ((k, nm), put_tree k m (t\<lparr>nodes := (nodes t)(nm \<mapsto> nd)\<rparr>) bd))))"

text \<open>
  Binary floating point, on the rationals.  \<open>round_binary p emin x\<close> is the number with
  \<open>p\<close> significant bits and least exponent \<open>emin\<close> nearest to \<open>x\<close>, ties to even.
  \<open>python_float\<close> is what Python makes of a decimal literal (binary64), \<open>float32\<close> what a
  float property of Blender keeps of a Python float (binary32).  Magnitudes beyond the
  largest finite number of the format, which become infinities, and the limits Blender
  puts on a property are left out.
\<close>

definition round_half_even :: "rat \<Rightarrow> int" where
  "round_half_even y =
     (let f = \<lfloor>y\<rfloor>; d = y - of_int f in
      if d < 1 / 2 then f else if 1 / 2 < d then f + 1 else if even f then f else f + 1)"

fun binade :: "nat \<Rightarrow> rat \<Rightarrow> int" where
  "binade 0 y = 0"
| "binade (Suc n) y =
     (if 2 \<le> y then binade n (y / 2) + 1 else if y < 1 then binade n (y * 2) - 1 else 0)"

definition pow2 :: "int \<Rightarrow> rat" where
  "pow2 e = (if 0 \<le> e then 2 ^ nat e else 1 / 2 ^ nat (- e))"

definition round_binary :: "nat \<Rightarrow> int \<Rightarrow> rat \<Rightarrow> rat" where
  "round_binary p emin x =
     (if x = 0 then 0
      else let e = max emin (binade 1100 \<bar>x\<bar>); q = pow2 (e - int p + 1)
           in sgn x * of_int (round_half_even (\<bar>x\<bar> / q)) * q)"

definition python_float :: "rat \<Rightarrow> rat" where
  "python_float = round_binary 53 (- 1022)"

definition float32 :: "rat \<Rightarrow> rat" where
  "float32 = round_binary 24 (- 126)"

fun stored_value :: "sockval \<Rightarrow> sockval" where
  "stored_value (Num x) = Num (float32 x)"
| "stored_value (Vec xs) = Vec (map float32 xs)"

text \<open>\<^verbatim>\<open>node.inputs[sock].default_value = v\<close> on a node reference: the socket keeps the
  value in single precision.\<close>

definition set_input_default ::
    "string \<times> string \<Rightarrow> string \<Rightarrow> sockval \<Rightarrow> bpy_data \<Rightarrow> error + unit \<times> bpy_data" where
  "set_input_default ref sock v bd =
     (case tree_of (fst ref) bd of
        Inl e \<Rightarrow> Inl e
      | Inr (m, t) \<Rightarrow>
          (case nodes t (snd ref) of
             None \<Rightarrow> Inl (KeyError (snd ref))
           | Some nd \<Rightarrow>
               (case inputs nd sock of
                  None \<Rightarrow> Inl (KeyError sock)
                | Some _ \<Rightarrow>
                    Inr ((), put_tree (fst ref) m
                       (t\<lparr>nodes := (nodes t)(snd ref \<mapsto>
                          nd\<lparr>inputs := (inputs nd)(sock \<mapsto> stored_value v)\<rparr>)\<rparr>) bd))))"

text \<open>
  \<^verbatim>\<open>bpy.data.materials[k].node_tree.nodes[n].inputs[sock]\<close> and the same with
  \<^verbatim>\<open>outputs\<close>: the socket, as the pair of its node's name and its own.
\<close>

definition input_socket :: "string \<Rightarrow> string \<Rightarrow> string \<Rightarrow> bpy_data \<Rightarrow> error + (string \<times> string) \<times> bpy_data" where
  "input_socket k n sock bd =
     (case tree_of k bd of
        Inl e \<Rightarrow> Inl e
      | Inr (m, t) \<Rightarrow>
          (case nodes t n of
             None \<Rightarrow> Inl (KeyError n)
           | Some nd \<Rightarrow> (case inputs nd sock of
                           None \<Rightarrow> Inl (KeyError sock)
                         | Some _ \<Rightarrow> Inr ((n, sock), bd))))"

definition output_socket :: "string \<Rightarrow> string \<Rightarrow> string \<Rightarrow> bpy_data \<Rightarrow> error + (string \<times> string) \<times> bpy_data" where
  "output_socket k n sock bd =
     (case tree_of k bd of
        Inl e \<Rightarrow> Inl e
      | Inr (m, t) \<Rightarrow>
          (case nodes t n of
             None \<Rightarrow> Inl (KeyError n)
           | Some nd \<Rightarrow> (if sock \<in> set (outputs nd) then Inr ((n, sock), bd)
                         else Inl (KeyError sock))))"

text \<open>
  \<^verbatim>\<open>bpy.data.materials[k].node_tree.links.new(inp, outp)\<close>: the first argument is the
  input socket, the second the output socket.  With the default \<^verbatim>\<open>verify_limits\<close> the
  links that already end in that input are dropped.
\<close>

definition links_new ::
    "string \<Rightarrow> string \<times> string \<Rightarrow> string \<times> string \<Rightarrow> bpy_data \<Rightarrow> error + unit \<times> bpy_data" where
  "links_new k inp outp bd =
     (case tree_of k bd of
        Inl e \<Rightarrow> Inl e
      | Inr (m, t) \<Rightarrow>
          Inr ((), put_tree k m
             (t\<lparr>links := filter (\<lambda>l. \<not> (to_node l = fst inp \<and> to_socket l = snd inp)) (links t)
                    @ [\<lparr>from_node = fst outp, from_socket = snd outp,
                         to_node = fst inp, to_socket = snd inp\<rparr>]\<rparr>) bd))"

text \<open>
  \<^verbatim>\<open>bpy.data.objects[o].active_material = bpy.data.materials[k]\<close>: Python evaluates the
  right-hand side first, then the object subscript, then stores the attribute.
\<close>

definition set_active_material :: "string \<Rightarrow> string \<Rightarrow> bpy_data \<Rightarrow> error + unit \<times> bpy_data" where
  "set_active_material o_name k bd =
     (case materials_getitem k bd of
        Inl e \<Rightarrow> Inl e
      | Inr _ \<Rightarrow>
          (case objects bd o_name of
             None \<Rightarrow> Inl (KeyError o_name)
           | Some ob \<Rightarrow>
               Inr ((), bd\<lparr>objects := (objects bd)(o_name \<mapsto> ob\<lparr>active_material := Some k\<rparr>)\<rparr>)))"

subsection \<open>The script\<close>

text \<open>
  The literals of the script that its comments and the specification treat as settings.
  \<open>script_config\<close> is the file as it stands.
\<close>

record config =
  stereo_setup :: string
  cam_data_0 :: camera_data
  light_data :: light_data
  glass_ior :: rat
  threads :: int
  samples :: int

definition script_config :: config where
  "script_config =
     \<lparr>stereo_setup = ''faceon'',
      cam_data_0 = \<lparr>pixels_num = [5328, 4608],
                    pixels_size = [345 / 100000, 345 / 100000],
                    cam_pos_world = [0, 0, 400],
                    cam_rot_world = From_euler ''xyz'' [0, 0, 0] False,
                    roi_cent_world = [0, 0, 0],
                    focal_length = 15\<rparr>,
      light_data = \<lparr>ltype = POINT,
                    light_pos_world = [200, 0, 200],
                    light_rot_world = From_euler ''xyz'' [0, 8 / 10, 0] False,
                    energy = 2\<rparr>,
      glass_ior = 13777 / 10000,
      threads = 8,
      samples = 40\<rparr>"

definition disp_comps :: "string list" where
  "disp_comps = [''disp_x'', ''disp_y'', ''disp_z'']"

definition base_dir :: pathlike where
  "base_dir = Cwd_rel ''blender/glass''"

text \<open>Lines 98 to 108: the stereo-rig selector.\<close>

definition stereo_cameras :: "host \<Rightarrow> config \<Rightarrow> obj \<Rightarrow> obj prog" where
  "stereo_cameras h cfg cam =
     (if stereo_setup cfg = ''symmetric'' then call h (Symmetric_stereo_cameras cam 15)
      else if stereo_setup cfg = ''faceon'' then call h (Faceon_stereo_cameras cam 10)
      else raise (ValueError (''Unknown stereo_setup: '' @ stereo_setup cfg)))"

text \<open>Lines 137 to 144: the glass material.\<close>

definition glass_material :: "host \<Rightarrow> config \<Rightarrow> unit prog" where
  "glass_material h cfg =
     \<comment> \<open>137\<close> pbind (on_store (Materials_new ''Material.001'') (materials_new h ''Material.001'')) (\<lambda>_.
     \<comment> \<open>138\<close> pbind (on_store (Set_use_nodes ''Material.001'' True)
                    (set_use_nodes h ''Material.001'' True)) (\<lambda>_.
     \<comment> \<open>139\<close> pbind (on_store (Node_tree_nodes ''Material.001'') (node_tree_nodes ''Material.001'')) (\<lambda>mat_nodes.
     \<comment> \<open>140\<close> pbind (on_store (Nodes_new mat_nodes ''ShaderNodeBsdfGlass'')
                    (nodes_new h mat_nodes ''ShaderNodeBsdfGlass'')) (\<lambda>glass.
     \<comment> \<open>141\<close> pbind (on_store (Set_input_default (fst glass) (snd glass) ''IOR''
                           (Num (python_float (glass_ior cfg))))
                    (set_input_default glass ''IOR'' (Num (python_float (glass_ior cfg))))) (\<lambda>_.
     \<comment> \<open>142\<close> pbind (on_store (Input_socket ''Material.001'' ''Material Output'' ''Surface'')
                    (input_socket ''Material.001'' ''Material Output'' ''Surface'')) (\<lambda>inp.
     \<comment> \<open>143\<close> pbind (on_store (Output_socket ''Material.001'' ''Glass BSDF'' ''BSDF'')
                    (output_socket ''Material.001'' ''Glass BSDF'' ''BSDF'')) (\<lambda>outp.
     \<comment> \<open>144\<close> on_store (Links_new ''Material.001'' (fst inp) (snd inp) (fst outp) (snd outp))
                    (links_new ''Material.001'' inp outp))))))))"

text \<open>Line 145: the material goes to the object registered as \<^verbatim>\<open>Part.001\<close>.\<close>

definition assign_glass_material :: "unit prog" where
  "assign_glass_material =
     on_store (Set_active_material ''Part.001'' ''Material.001'')
       (set_active_material ''Part.001'' ''Material.001'')"

text \<open>
  The whole script, from top to bottom.  The bound names are the script's variables; the
  comments give the line of the statement.  \<^verbatim>\<open>cam0, cam1 = ...\<close> (line 110) iterates the
  object that \<^verbatim>\<open>add_stereo_system\<close> returned, which is \<open>Unpack_pair\<close>; the reads of
  \<^verbatim>\<open>stereo_system.cam_data_0\<close>, \<^verbatim>\<open>stereo_system.cam_data_1\<close> and
  \<^verbatim>\<open>render_data.base_dir\<close> are the \<open>Get_\<close> calls; \<open>Path_div\<close> is the \<^verbatim>\<open>/\<close> on the path
  object read from \<^verbatim>\<open>render_data\<close>, and \<open>Print\<close> the message of line 177.  The arrays,
  tuples and rotations built from literals (\<^verbatim>\<open>np.array\<close>, \<^verbatim>\<open>Rotation.from_euler\<close>) are
  values, not calls.
\<close>

definition run :: "host \<Rightarrow> config \<Rightarrow> unit prog" where
  "run h cfg =
     \<comment> \<open>33\<close> pbind (call h Render_mechanical_3d_path) (\<lambda>data_path1.
     \<comment> \<open>34\<close> pbind (call h (ExodusReader (Lib data_path1))) (\<lambda>reader1.
     pbind (call h (Read_all_sim_data reader1)) (\<lambda>sim_data1.
     \<comment> \<open>36, 37\<close> pbind (call h (ExodusReader (Cwd_rel ''moose/input/circular_glass_out.e''))) (\<lambda>reader2.
     pbind (call h (Read_all_sim_data reader2)) (\<lambda>sim_data2.
     \<comment> \<open>47\<close> pbind (call h (Scale_length_units 1000 sim_data1 disp_comps)) (\<lambda>sim_data1.
     \<comment> \<open>50\<close> pbind (call h (Scale_length_units 1000 sim_data2 disp_comps)) (\<lambda>sim_data2.
     \<comment> \<open>54\<close> pbind (call h (Create_render_mesh sim_data1 [''disp_y'', ''disp_x''] 3 disp_comps)) (\<lambda>render_mesh1.
     \<comment> \<open>59\<close> pbind (call h (Create_render_mesh sim_data2 [''disp_y'', ''disp_x''] 3 disp_comps)) (\<lambda>render_mesh2.
     \<comment> \<open>78\<close> pbind (call h Scene) (\<lambda>scene.
     \<comment> \<open>81\<close> pbind (call h (Add_part scene render_mesh1 3)) (\<lambda>part.
     \<comment> \<open>82\<close> pbind (call h (Add_part scene render_mesh2 3)) (\<lambda>window.
     \<comment> \<open>84, 85\<close> pbind (call h (Move_blender_obj window [0, 0, 200])) (\<lambda>_.
     \<comment> \<open>87, 88\<close> pbind (call h (Rotate_blender_obj part (From_euler ''xyz'' [0, 0, 0] True))) (\<lambda>_.
     \<comment> \<open>90\<close> pbind (call h (CameraData (cam_data_0 cfg))) (\<lambda>cam.
     \<comment> \<open>98 to 108\<close> pbind (stereo_cameras h cfg cam) (\<lambda>stereo_system.
     \<comment> \<open>110\<close> pbind (call h (Add_stereo_system scene stereo_system)) (\<lambda>cams.
     pbind (call h (Unpack_pair cams)) (\<lambda>_.
     \<comment> \<open>112\<close> pbind (call h (Save_calibration stereo_system base_dir)) (\<lambda>_.
     \<comment> \<open>114\<close> pbind (call h (LightData (light_data cfg))) (\<lambda>light_data.
     \<comment> \<open>119\<close> pbind (call h (Add_light scene light_data)) (\<lambda>light.
     \<comment> \<open>124\<close> pbind (call h MaterialData) (\<lambda>material_data.
     \<comment> \<open>125\<close> pbind (call h Dic_pattern_5mpx_path) (\<lambda>speckle_path.
     \<comment> \<open>130\<close> pbind (call h (Calculate_mm_px_resolution cam)) (\<lambda>mm_px_resolution.
     \<comment> \<open>131\<close> pbind (call h (Add_speckle scene part speckle_path material_data mm_px_resolution)) (\<lambda>_.
     \<comment> \<open>137 to 144\<close> pbind (glass_material h cfg) (\<lambda>_.
     \<comment> \<open>145\<close> pbind assign_glass_material (\<lambda>_.
     \<comment> \<open>157\<close> pbind (call h (Get_cam_data_0 stereo_system)) (\<lambda>c0.
     pbind (call h (Get_cam_data_1 stereo_system)) (\<lambda>c1.
     pbind (call h (RenderData c0 c1 base_dir (threads cfg) (samples cfg))) (\<lambda>render_data.
     \<comment> \<open>166\<close> pbind (call h (Render_deformed_images scene render_mesh2 3 render_data window False)) (\<lambda>_.
     \<comment> \<open>177\<close> pbind (call h (Get_base_dir render_data)) (\<lambda>d.
     pbind (call h (Path_div d ''blenderimages'')) (\<lambda>p.
     pbind (call h (Print ''Save directory of the image:'' p)) (\<lambda>_.
     \<comment> \<open>183\<close> pbind (call h (Save_blender_file base_dir True)) (\<lambda>_.
     ret ()
     )))))))))))))))))))))))))))))))))))"

text \<open>A run starts with an empty trace on whatever the store holds; it ends with the
  outcome and the state reached.\<close>

definition script :: "host \<Rightarrow> config \<Rightarrow> bpy_data \<Rightarrow> (error + unit) \<times> state" where
  "script h cfg bd = run h cfg \<lparr>trace = [], bdata = bd\<rparr>"

subsection \<open>Reading a trace\<close>

text \<open>A call that returned, as opposed to one that raised.\<close>

definition succeeded :: "event \<Rightarrow> bool" where
  "succeeded ev = (case snd ev of Inl _ \<Rightarrow> False | Inr _ \<Rightarrow> True)"

text \<open>The calls that construct a stereo camera pair, and the camera data that were built.\<close>

fun is_rig_ctor :: "call \<Rightarrow> bool" where
  "is_rig_ctor (Symmetric_stereo_cameras _ _) = True"
| "is_rig_ctor (Faceon_stereo_cameras _ _) = True"
| "is_rig_ctor _ = False"

definition rig_calls :: "event list \<Rightarrow> call list" where
  "rig_calls tr = filter is_rig_ctor (map fst tr)"

fun built_camera :: "event \<Rightarrow> obj list" where
  "built_camera (CameraData _, Inr c) = [c]"
| "built_camera _ = []"

definition camera_built :: "event list \<Rightarrow> obj list" where
  "camera_built tr = concat (map built_camera tr)"

text \<open>
  The calls that construct a scene object: the scene, a part, a stereo camera pair, the
  cameras of a pair in the scene.  \<open>constructed\<close> lists those that returned.
\<close>

fun builds_scene_object :: "call \<Rightarrow> bool" where
  "builds_scene_object Scene = True"
| "builds_scene_object (Add_part _ _ _) = True"
| "builds_scene_object (Symmetric_stereo_cameras _ _) = True"
| "builds_scene_object (Faceon_stereo_cameras _ _) = True"
| "builds_scene_object (Add_stereo_system _ _) = True"
| "builds_scene_object _ = False"

definition constructed :: "event list \<Rightarrow> call list" where
  "constructed tr = filter builds_scene_object (map fst (filter succeeded tr))"

text \<open>The calls the script makes before it looks at the selector (lines 33 to 95).\<close>

fun before_selector :: "call \<Rightarrow> bool" where
  "before_selector Render_mechanical_3d_path = True"
| "before_selector (ExodusReader _) = True"
| "before_selector (Read_all_sim_data _) = True"
| "before_selector (Scale_length_units _ _ _) = True"
| "before_selector (Create_render_mesh _ _ _ _) = True"
| "before_selector Scene = True"
| "before_selector (Add_part _ _ _) = True"
| "before_selector (Move_blender_obj _ _) = True"
| "before_selector (Rotate_blender_obj _ _) = True"
| "before_selector (CameraData _) = True"
| "before_selector _ = False"

text \<open>The files handed to the simulation reader, the speckle images and the output
  directories, in the order of the calls that name them.\<close>

fun opened :: "event \<Rightarrow> pathlike list" where
  "opened (ExodusReader p, _) = [p]"
| "opened _ = []"

definition sims_opened :: "event list \<Rightarrow> pathlike list" where
  "sims_opened tr = concat (map opened tr)"

fun speckle_image :: "event \<Rightarrow> obj list" where
  "speckle_image (Add_speckle _ _ sp _ _, _) = [sp]"
| "speckle_image _ = []"

definition speckle_images :: "event list \<Rightarrow> obj list" where
  "speckle_images tr = concat (map speckle_image tr)"

fun output_dir :: "event \<Rightarrow> pathlike list" where
  "output_dir (Save_calibration _ d, _) = [d]"
| "output_dir (RenderData _ _ d _ _, _) = [d]"
| "output_dir (Save_blender_file d _, _) = [d]"
| "output_dir _ = []"

definition output_dirs :: "event list \<Rightarrow> pathlike list" where
  "output_dirs tr = concat (map output_dir tr)"

text \<open>The statements on \<^verbatim>\<open>bpy.data\<close> of a trace, in order.\<close>

fun statement_of :: "event \<Rightarrow> statement list" where
  "statement_of (Bpy_data st, _) = [st]"
| "statement_of _ = []"

definition statements :: "event list \<Rightarrow> statement list" where
  "statements tr = concat (map statement_of tr)"

text \<open>
  How a run may end.  Either it completes and every call and statement before returned;
  or it stops at the call or statement that raised, which is the last of the trace, with
  that error and no other; or everything returned and the error is the script's own
  \<^verbatim>\<open>ValueError\<close> for a selector it does not know.
\<close>

definition own_error :: "config \<Rightarrow> error \<Rightarrow> bool" where
  "own_error cfg e =
     (e = ValueError (''Unknown stereo_setup: '' @ stereo_setup cfg) \<and>
      stereo_setup cfg \<noteq> ''symmetric'' \<and> stereo_setup cfg \<noteq> ''faceon'')"

definition propagated :: "config \<Rightarrow> error + unit \<Rightarrow> event list \<Rightarrow> bool" where
  "propagated cfg r tr =
     (case r of
        Inr _ \<Rightarrow> list_all succeeded tr
      | Inl e \<Rightarrow>
          (tr \<noteq> [] \<and> snd (last tr) = Inl e \<and> list_all succeeded (butlast tr)) \<or>
          (list_all succeeded tr \<and> own_error cfg e))"

text \<open>The parts added to the scene with their meshes, the meshes skinned with their
  simulation data, and the (mesh, part) pairs handed to the deformation render.\<close>

fun part_added :: "event \<Rightarrow> (obj \<times> obj) list" where
  "part_added (Add_part _ m _, Inr p) = [(m, p)]"
| "part_added _ = []"

definition parts_added :: "event list \<Rightarrow> (obj \<times> obj) list" where
  "parts_added tr = concat (map part_added tr)"

fun deformed :: "event \<Rightarrow> (obj \<times> obj) list" where
  "deformed (Render_deformed_images _ m _ _ p _, _) = [(m, p)]"
| "deformed _ = []"

definition deform_targets :: "event list \<Rightarrow> (obj \<times> obj) list" where
  "deform_targets tr = concat (map deformed tr)"

fun skinned :: "event \<Rightarrow> (obj \<times> obj) list" where
  "skinned (Create_render_mesh sd _ _ _, Inr m) = [(sd, m)]"
| "skinned _ = []"

definition meshes_skinned :: "event list \<Rightarrow> (obj \<times> obj) list" where
  "meshes_skinned tr = concat (map skinned tr)"

fun speckled :: "event \<Rightarrow> obj list" where
  "speckled (Add_speckle _ p _ _ _, _) = [p]"
| "speckled _ = []"

definition parts_speckled :: "event list \<Rightarrow> obj list" where
  "parts_speckled tr = concat (map speckled tr)"

text \<open>
  The trace up to and including the first \<^verbatim>\<open>save_calibration\<close> call (all of it when there
  is none), and the calls and statements that configure a light, the speckle material,
  the glass material or the render.
\<close>

fun is_save_calibration :: "call \<Rightarrow> bool" where
  "is_save_calibration (Save_calibration _ _) = True"
| "is_save_calibration _ = False"

fun through_calibration :: "event list \<Rightarrow> event list" where
  "through_calibration [] = []"
| "through_calibration (ev # evs) =
     (if is_save_calibration (fst ev) then [ev] else ev # through_calibration evs)"

fun configures_later :: "call \<Rightarrow> bool" where
  "configures_later (LightData _) = True"
| "configures_later (Add_light _ _) = True"
| "configures_later MaterialData = True"
| "configures_later Dic_pattern_5mpx_path = True"
| "configures_later (Calculate_mm_px_resolution _) = True"
| "configures_later (Add_speckle _ _ _ _ _) = True"
| "configures_later (RenderData _ _ _ _ _) = True"
| "configures_later (Render_deformed_images _ _ _ _ _ _) = True"
| "configures_later (Bpy_data _) = True"
| "configures_later _ = False"

subsection \<open>Two hosts to run the script on\<close>

text \<open>
  \<open>demo_host\<close> answers every call with an object numbered after the call, registers an
  object for every \<^verbatim>\<open>add_part\<close> under \<^verbatim>\<open>Part\<close> or, when that is taken, \<^verbatim>\<open>Part.001\<close>, and
  names data-blocks and nodes the same way: a name that is taken is never given again
  (Blender would count on from the taken name; only that the new name differs matters
  below).  \<open>missing_file_host\<close> is the same host without the file
  \<^verbatim>\<open>moose/input/circular_glass_out.e\<close>.
\<close>

definition empty_store :: bpy_data where
  "empty_store = \<lparr>materials = Map.empty, objects = Map.empty\<rparr>"

definition dot_001 :: "string \<Rightarrow> (string \<Rightarrow> bool) \<Rightarrow> string" where
  "dot_001 n taken = (if taken n then n @ ''.001'' else n)"

definition glass_node :: node where
  "glass_node = \<lparr>bl_idname = ''ShaderNodeBsdfGlass'',
     inputs = [''Color'' \<mapsto> Vec [1, 1, 1, 1], ''Roughness'' \<mapsto> Num 0, ''IOR'' \<mapsto> Num (145 / 100),
               ''Normal'' \<mapsto> Vec [0, 0, 0]],
     outputs = [''BSDF'']\<rparr>"

definition output_node :: node where
  "output_node = \<lparr>bl_idname = ''ShaderNodeOutputMaterial'',
     inputs = [''Surface'' \<mapsto> Vec [], ''Volume'' \<mapsto> Vec [], ''Displacement'' \<mapsto> Vec [0, 0, 0]],
     outputs = []\<rparr>"

definition principled_node :: node where
  "principled_node = \<lparr>bl_idname = ''ShaderNodeBsdfPrincipled'',
     inputs = [''Base Color'' \<mapsto> Vec [8 / 10, 8 / 10, 8 / 10, 1], ''IOR'' \<mapsto> Num (15 / 10)],
     outputs = [''BSDF'']\<rparr>"

definition demo_tree :: node_tree where
  "demo_tree = \<lparr>nodes = [''Principled BSDF'' \<mapsto> principled_node, ''Material Output'' \<mapsto> output_node],
                 links = [\<lparr>from_node = ''Principled BSDF'', from_socket = ''BSDF'',
                           to_node = ''Material Output'', to_socket = ''Surface''\<rparr>]\<rparr>"

fun demo_effect :: "call \<Rightarrow> bpy_data \<Rightarrow> bpy_data" where
  "demo_effect (Add_part _ _ _) bd =
     bd\<lparr>objects := (objects bd)(dot_001 ''Part'' (\<lambda>n. objects bd n \<noteq> None) \<mapsto> \<lparr>active_material = None\<rparr>)\<rparr>"
| "demo_effect _ bd = bd"

fun demo_result :: "call \<Rightarrow> obj" where
  "demo_result Render_mechanical_3d_path = Obj 1"
| "demo_result (ExodusReader (Lib _)) = Obj 2"
| "demo_result (ExodusReader (Cwd_rel _)) = Obj 3"
| "demo_result (Read_all_sim_data (Obj n)) = Obj (n + 2)"
| "demo_result (Scale_length_units _ (Obj n) _) = Obj (n + 2)"
| "demo_result (Create_render_mesh (Obj n) _ _ _) = Obj (n + 2)"
| "demo_result Scene = Obj 10"
| "demo_result (Add_part _ (Obj n) _) = Obj (n + 3)"
| "demo_result (CameraData _) = Obj 13"
| "demo_result (Symmetric_stereo_cameras _ _) = Obj 14"
| "demo_result (Faceon_stereo_cameras _ _) = Obj 15"
| "demo_result (Add_stereo_system _ _) = Obj 16"
| "demo_result (LightData _) = Obj 17"
| "demo_result (Add_light _ _) = Obj 18"
| "demo_result MaterialData = Obj 19"
| "demo_result Dic_pattern_5mpx_path = Obj 20"
| "demo_result (Calculate_mm_px_resolution _) = Obj 21"
| "demo_result (Get_cam_data_0 _) = Obj 22"
| "demo_result (Get_cam_data_1 _) = Obj 23"
| "demo_result (RenderData _ _ _ _ _) = Obj 24"
| "demo_result (Get_base_dir _) = Obj 25"
| "demo_result (Path_div _ _) = Obj 26"
| "demo_result _ = Obj 0"

definition demo_host :: host where
  "demo_host =
     \<lparr>respond = (\<lambda>tr c bd. (Inr (demo_result c), demo_effect c bd)),
      assigned_name = dot_001,
      default_tree = demo_tree,
      node_of_type = [''ShaderNodeBsdfGlass'' \<mapsto> (''Glass BSDF'', glass_node)]\<rparr>"

fun file_missing :: "call \<Rightarrow> bool" where
  "file_missing (ExodusReader (Cwd_rel _)) = True"
| "file_missing _ = False"

text \<open>\<open>bare_host\<close> answers like \<open>demo_host\<close> and registers nothing in the store.\<close>

definition bare_host :: host where
  "bare_host = demo_host\<lparr>respond := (\<lambda>tr c bd. (Inr (demo_result c), bd))\<rparr>"

definition missing_file_host :: host where
  "missing_file_host =
     demo_host\<lparr>respond := (\<lambda>tr c bd.
        if file_missing c then (Inl (Raised ''FileNotFoundError''), bd)
        else (Inr (demo_result c), demo_effect c bd))\<rparr>"

text \<open>The readers opened with their files, the simulation data read, and their scaling.\<close>

fun reader_opened :: "event \<Rightarrow> (pathlike \<times> obj) list" where
  "reader_opened (ExodusReader p, Inr rd) = [(p, rd)]"
| "reader_opened _ = []"

definition readers_opened :: "event list \<Rightarrow> (pathlike \<times> obj) list" where
  "readers_opened tr = concat (map reader_opened tr)"

fun sim_read :: "event \<Rightarrow> (obj \<times> obj) list" where
  "sim_read (Read_all_sim_data rd, Inr sd) = [(rd, sd)]"
| "sim_read _ = []"

definition sims_read :: "event list \<Rightarrow> (obj \<times> obj) list" where
  "sims_read tr = concat (map sim_read tr)"

fun sim_scaled :: "event \<Rightarrow> (obj \<times> obj) list" where
  "sim_scaled (Scale_length_units _ sd _, Inr sd') = [(sd, sd')]"
| "sim_scaled _ = []"

definition sims_scaled :: "event list \<Rightarrow> (obj \<times> obj) list" where
  "sims_scaled tr = concat (map sim_scaled tr)"

text \<open>The script with a selector it does not know, and with other light, glass and
  render settings.\<close>

definition sideways_config :: config where
  "sideways_config = script_config\<lparr>stereo_setup := ''sideways''\<rparr>"

definition dimmed_config :: config where
  "dimmed_config =
     script_config\<lparr>light_data := \<lparr>ltype = SUN, light_pos_world = [0, 0, 500],
                                   light_rot_world = From_euler ''xyz'' [0, 0, 0] False, energy = 1\<rparr>,
                    glass_ior := 15 / 10, threads := 2, samples := 16\<rparr>"

subsection \<open>Properties of programs\<close>

text \<open>
  \<open>yields m Q\<close>: from any state, \<open>m\<close> only appends to the trace, and its outcome together
  with the events it appended satisfies \<open>Q\<close>.  The rules below walk down a program one
  statement at a time; a call contributes one event whatever the host answers.
\<close>

definition yields :: "'a prog \<Rightarrow> ((error + 'a) \<Rightarrow> event list \<Rightarrow> bool) \<Rightarrow> bool" where
  "yields m Q = (\<forall>s. \<exists>evs. trace (snd (m s)) = trace s @ evs \<and> Q (fst (m s)) evs)"

text \<open>
  \<open>agree m m' R\<close>: from any state, \<open>m\<close> and \<open>m'\<close> only append to the trace, and what
  they append is related by \<open>R\<close>.
\<close>

definition agree :: "'a prog \<Rightarrow> 'b prog \<Rightarrow> (event list \<Rightarrow> event list \<Rightarrow> bool) \<Rightarrow> bool" where
  "agree m m' R =
     (\<forall>s. \<exists>evs evs'. trace (snd (m s)) = trace s @ evs \<and> trace (snd (m' s)) = trace s @ evs' \<and>
        R evs evs')"

text \<open>\<open>ensures m P\<close>: whenever \<open>m\<close> completes, the state it reaches satisfies \<open>P\<close>.\<close>

definition ensures :: "'a prog \<Rightarrow> (state \<Rightarrow> bool) \<Rightarrow> bool" where
  "ensures m P = (\<forall>s. case m s of (Inl _, _) \<Rightarrow> True | (Inr _, s1) \<Rightarrow> P s1)"

text \<open>The store the two \<^verbatim>\<open>add_part\<close> calls of \<open>demo_host\<close> leave behind.\<close>

definition two_parts_store :: bpy_data where
  "two_parts_store =
     \<lparr>materials = Map.empty,
      objects = [''Part'' \<mapsto> \<lparr>active_material = None\<rparr>, ''Part.001'' \<mapsto> \<lparr>active_material = None\<rparr>]\<rparr>"

text \<open>A store in which the names \<^verbatim>\<open>Material.001\<close> and \<^verbatim>\<open>Glass BSDF\<close> are taken: a material
  with nodes, whose glass node has the index 1.45.\<close>

definition taken_store :: bpy_data where
  "taken_store =
     \<lparr>materials = [''Material.001'' \<mapsto>
        \<lparr>use_nodes = True,
         mat_node_tree = Some \<lparr>nodes = [''Material Output'' \<mapsto> output_node, ''Glass BSDF'' \<mapsto> glass_node],
                               links = []\<rparr>\<rparr>],
      objects = Map.empty\<rparr>"

text \<open>What a socket of a node of a material holds, and the sockets linked into one.\<close>

definition node_input :: "bpy_data \<Rightarrow> string \<Rightarrow> string \<Rightarrow> string \<Rightarrow> sockval option" where
  "node_input bd k n sock =
     (case materials bd k of
        None \<Rightarrow> None
      | Some m \<Rightarrow> (case mat_node_tree m of
                     None \<Rightarrow> None
                   | Some t \<Rightarrow> (case nodes t n of None \<Rightarrow> None | Some nd \<Rightarrow> inputs nd sock)))"

definition linked_into :: "bpy_data \<Rightarrow> string \<Rightarrow> string \<Rightarrow> string \<Rightarrow> (string \<times> string) list" where
  "linked_into bd k n sock =
     (case materials bd k of
        None \<Rightarrow> []
      | Some m \<Rightarrow> (case mat_node_tree m of
                     None \<Rightarrow> []
                   | Some t \<Rightarrow> map (\<lambda>l. (from_node l, from_socket l))
                                (filter (\<lambda>l. to_node l = n \<and> to_socket l = sock) (links t))))"

section \<open>Reasoning about runs\<close>

subsection \<open>What a program adds to the trace\<close>

lemma pbind_assoc: "pbind (pbind m f) g = pbind m (\<lambda>x. pbind (f x) g)"
  by (auto simp: pbind_def fun_eq_iff split: prod.splits sum.splits)

lemma pbind_raise: "pbind (raise e) f = raise e"
  by (simp add: pbind_def raise_def)

lemma pbind_if: "pbind (if b then m else n) f = (if b then pbind m f else pbind n f)"
  by simp

lemma yields_ret: "Q (Inr x) [] \<Longrightarrow> yields (ret x) Q"
  by (simp add: yields_def ret_def)

lemma yields_raise: "Q (Inl e) [] \<Longrightarrow> yields (raise e) Q"
  by (simp add: yields_def raise_def)

lemma yields_if:
  "(b \<Longrightarrow> yields m Q) \<Longrightarrow> (\<not> b \<Longrightarrow> yields n Q) \<Longrightarrow> yields (if b then m else n) Q"
  by simp

lemma yields_call_bind:
  assumes "\<And>e. Q (Inl e) [(c, Inl e)]"
    and "\<And>x. yields (f x) (\<lambda>r evs. Q r ((c, Inr x) # evs))"
  shows "yields (pbind (call h c) f) Q"
  unfolding yields_def
proof
  fix s :: state
  obtain r bd where R: "respond h (trace s) c (bdata s) = (r, bd)"
    by (cases "respond h (trace s) c (bdata s)")
  show "\<exists>evs. trace (snd (pbind (call h c) f s)) = trace s @ evs \<and>
          Q (fst (pbind (call h c) f s)) evs"
  proof (cases r)
    case (Inl e)
    then show ?thesis using R assms(1)[of e] by (simp add: pbind_def call_def)
  next
    case (Inr x)
    let ?s = "\<lparr>trace = trace s @ [(c, Inr x)], bdata = bd\<rparr>"
    from assms(2)[of x] obtain evs where
      "trace (snd (f x ?s)) = trace ?s @ evs" "Q (fst (f x ?s)) ((c, Inr x) # evs)"
      unfolding yields_def by blast
    then show ?thesis using R Inr by (simp add: pbind_def call_def)
  qed
qed

lemma yields_store_bind:
  assumes "\<And>e. Q (Inl e) [(Bpy_data st, Inl e)]"
    and "\<And>x. yields (f x) (\<lambda>r evs. Q r ((Bpy_data st, Inr (Obj 0)) # evs))"
  shows "yields (pbind (on_store st g) f) Q"
  unfolding yields_def
proof
  fix s :: state
  show "\<exists>evs. trace (snd (pbind (on_store st g) f s)) = trace s @ evs \<and>
          Q (fst (pbind (on_store st g) f s)) evs"
  proof (cases "g (bdata s)")
    case (Inl e)
    then show ?thesis using assms(1)[of e] by (simp add: pbind_def on_store_def)
  next
    case (Inr p)
    obtain x bd where p: "p = (x, bd)" by (cases p)
    let ?s = "\<lparr>trace = trace s @ [(Bpy_data st, Inr (Obj 0))], bdata = bd\<rparr>"
    from assms(2)[of x] obtain evs where
      "trace (snd (f x ?s)) = trace ?s @ evs" "Q (fst (f x ?s)) ((Bpy_data st, Inr (Obj 0)) # evs)"
      unfolding yields_def by blast
    then show ?thesis using Inr p by (simp add: pbind_def on_store_def)
  qed
qed

lemma yields_script:
  "yields (run h cfg) Q \<Longrightarrow> Q (fst (script h cfg bd)) (trace (snd (script h cfg bd)))"
  unfolding yields_def script_def
  by (drule spec[where x = "\<lparr>trace = [], bdata = bd\<rparr>"]) auto

lemmas run_unfold = run_def stereo_cameras_def glass_material_def assign_glass_material_def
lemmas run_split = pbind_if pbind_raise pbind_assoc
lemmas yields_run = yields_call_bind yields_store_bind yields_if yields_ret yields_raise

subsection \<open>Running on a given host\<close>

lemma call_step:
  "pbind (call h c) f s =
     (case respond h (trace s) c (bdata s) of
        (Inl e, bd) \<Rightarrow> (Inl e, \<lparr>trace = trace s @ [(c, Inl e)], bdata = bd\<rparr>)
      | (Inr x, bd) \<Rightarrow> f x \<lparr>trace = trace s @ [(c, Inr x)], bdata = bd\<rparr>)"
  by (simp add: pbind_def call_def split: prod.splits sum.splits)

lemma store_step:
  "pbind (on_store st g) f s =
     (case g (bdata s) of
        Inl e \<Rightarrow> (Inl e, \<lparr>trace = trace s @ [(Bpy_data st, Inl e)], bdata = bdata s\<rparr>)
      | Inr (x, bd) \<Rightarrow> f x \<lparr>trace = trace s @ [(Bpy_data st, Inr (Obj 0))], bdata = bd\<rparr>)"
  by (simp add: pbind_def on_store_def split: prod.splits sum.splits)

lemma store_last:
  "on_store st g s =
     (case g (bdata s) of
        Inl e \<Rightarrow> (Inl e, \<lparr>trace = trace s @ [(Bpy_data st, Inl e)], bdata = bdata s\<rparr>)
      | Inr (x, bd) \<Rightarrow> (Inr x, \<lparr>trace = trace s @ [(Bpy_data st, Inr (Obj 0))], bdata = bd\<rparr>))"
  by (simp add: on_store_def)

lemma ret_apply: "ret x s = (Inr x, s)"
  by (simp add: ret_def)

lemma raise_apply: "raise e s = (Inl e, s)"
  by (simp add: raise_def)

lemma demo_fields:
  "respond demo_host tr c bd = (Inr (demo_result c), demo_effect c bd)"
  "assigned_name demo_host = dot_001"
  "default_tree demo_host = demo_tree"
  "node_of_type demo_host = [''ShaderNodeBsdfGlass'' \<mapsto> (''Glass BSDF'', glass_node)]"
  by (simp_all add: demo_host_def)

lemma bare_fields:
  "respond bare_host tr c bd = (Inr (demo_result c), bd)"
  "assigned_name bare_host = dot_001"
  "default_tree bare_host = demo_tree"
  "node_of_type bare_host = [''ShaderNodeBsdfGlass'' \<mapsto> (''Glass BSDF'', glass_node)]"
  by (simp_all add: bare_host_def demo_host_def)

lemma missing_file_fields:
  "respond missing_file_host tr c bd =
     (if file_missing c then (Inl (Raised ''FileNotFoundError''), bd)
      else (Inr (demo_result c), demo_effect c bd))"
  by (simp add: missing_file_host_def)

lemma selector_of_config:
  "stereo_setup script_config = ''faceon''"
  "stereo_setup sideways_config = ''sideways''"
  by (simp_all add: script_config_def sideways_config_def)

lemma ior_of_config: "glass_ior script_config = 13777 / 10000"
  by (simp add: script_config_def)

lemma python_float_ior: "python_float (13777 / 10000) = 1551152301657083 / 1125899906842624"
  by code_simp

lemma ior_held: "float32 (python_float (13777 / 10000)) = 11556985 / 8388608"
  by code_simp

lemmas store_defs = materials_new_def materials_getitem_def tree_of_def put_tree_def
  set_use_nodes_def node_tree_nodes_def nodes_new_def set_input_default_def input_socket_def
  output_socket_def links_new_def set_active_material_def
lemmas steps = call_step store_step store_last ret_apply raise_apply pbind_raise pbind_assoc
lemmas demo_defs = demo_fields empty_store_def dot_001_def glass_node_def output_node_def
  principled_node_def demo_tree_def Let_def base_dir_def disp_comps_def
lemmas run_eval = script_def run_def stereo_cameras_def glass_material_def assign_glass_material_def
  steps store_defs demo_defs selector_of_config

lemma demo_completes: "fst (script demo_host script_config empty_store) = Inr ()"
  by (simp add: run_eval
       cong: prod.case_cong_weak sum.case_cong_weak option.case_cong_weak)

lemma demo_trace:
  "trace (snd (script demo_host script_config empty_store)) =
     [(Render_mechanical_3d_path, Inr (Obj 1)),
      (ExodusReader (Lib (Obj 1)), Inr (Obj 2)),
      (Read_all_sim_data (Obj 2), Inr (Obj 4)),
      (ExodusReader (Cwd_rel ''moose/input/circular_glass_out.e''), Inr (Obj 3)),
      (Read_all_sim_data (Obj 3), Inr (Obj 5)),
      (Scale_length_units 1000 (Obj 4) disp_comps, Inr (Obj 6)),
      (Scale_length_units 1000 (Obj 5) disp_comps, Inr (Obj 7)),
      (Create_render_mesh (Obj 6) [''disp_y'', ''disp_x''] 3 disp_comps, Inr (Obj 8)),
      (Create_render_mesh (Obj 7) [''disp_y'', ''disp_x''] 3 disp_comps, Inr (Obj 9)),
      (Scene, Inr (Obj 10)),
      (Add_part (Obj 10) (Obj 8) 3, Inr (Obj 11)),
      (Add_part (Obj 10) (Obj 9) 3, Inr (Obj 12)),
      (Move_blender_obj (Obj 12) [0, 0, 200], Inr (Obj 0)),
      (Rotate_blender_obj (Obj 11) (From_euler ''xyz'' [0, 0, 0] True), Inr (Obj 0)),
      (CameraData (cam_data_0 script_config), Inr (Obj 13)),
      (Faceon_stereo_cameras (Obj 13) 10, Inr (Obj 15)),
      (Add_stereo_system (Obj 10) (Obj 15), Inr (Obj 16)),
      (Unpack_pair (Obj 16), Inr (Obj 0)),
      (Save_calibration (Obj 15) base_dir, Inr (Obj 0)),
      (LightData (light_data script_config), Inr (Obj 17)),
      (Add_light (Obj 10) (Obj 17), Inr (Obj 18)),
      (MaterialData, Inr (Obj 19)),
      (Dic_pattern_5mpx_path, Inr (Obj 20)),
      (Calculate_mm_px_resolution (Obj 13), Inr (Obj 21)),
      (Add_speckle (Obj 10) (Obj 11) (Obj 20) (Obj 19) (Obj 21), Inr (Obj 0)),
      (Bpy_data (Materials_new ''Material.001''), Inr (Obj 0)),
      (Bpy_data (Set_use_nodes ''Material.001'' True), Inr (Obj 0)),
      (Bpy_data (Node_tree_nodes ''Material.001''), Inr (Obj 0)),
      (Bpy_data (Nodes_new ''Material.001'' ''ShaderNodeBsdfGlass''), Inr (Obj 0)),
      (Bpy_data (Set_input_default ''Material.001'' ''Glass BSDF'' ''IOR''
         (Num (python_float (glass_ior script_config)))), Inr (Obj 0)),
      (Bpy_data (Input_socket ''Material.001'' ''Material Output'' ''Surface''), Inr (Obj 0)),
      (Bpy_data (Output_socket ''Material.001'' ''Glass BSDF'' ''BSDF''), Inr (Obj 0)),
      (Bpy_data (Links_new ''Material.001'' ''Material Output'' ''Surface'' ''Glass BSDF'' ''BSDF''),
       Inr (Obj 0)),
      (Bpy_data (Set_active_material ''Part.001'' ''Material.001''), Inr (Obj 0)),
      (Get_cam_data_0 (Obj 15), Inr (Obj 22)),
      (Get_cam_data_1 (Obj 15), Inr (Obj 23)),
      (RenderData (Obj 22) (Obj 23) base_dir (threads script_config) (samples script_config),
       Inr (Obj 24)),
      (Render_deformed_images (Obj 10) (Obj 9) 3 (Obj 24) (Obj 12) False, Inr (Obj 0)),
      (Get_base_dir (Obj 24), Inr (Obj 25)),
      (Path_div (Obj 25) ''blenderimages'', Inr (Obj 26)),
      (Print ''Save directory of the image:'' (Obj 26), Inr (Obj 0)),
      (Save_blender_file base_dir True, Inr (Obj 0))]"
  by (simp add: run_eval
       cong: prod.case_cong_weak sum.case_cong_weak option.case_cong_weak)

lemma sideways_outcome:
  "fst (script demo_host sideways_config empty_store) =
     Inl (ValueError ''Unknown stereo_setup: sideways'')"
  by (simp add: run_eval
       cong: prod.case_cong_weak sum.case_cong_weak option.case_cong_weak)

lemma sideways_trace:
  "trace (snd (script demo_host sideways_config empty_store)) =
     [(Render_mechanical_3d_path, Inr (Obj 1)),
      (ExodusReader (Lib (Obj 1)), Inr (Obj 2)),
      (Read_all_sim_data (Obj 2), Inr (Obj 4)),
      (ExodusReader (Cwd_rel ''moose/input/circular_glass_out.e''), Inr (Obj 3)),
      (Read_all_sim_data (Obj 3), Inr (Obj 5)),
      (Scale_length_units 1000 (Obj 4) disp_comps, Inr (Obj 6)),
      (Scale_length_units 1000 (Obj 5) disp_comps, Inr (Obj 7)),
      (Create_render_mesh (Obj 6) [''disp_y'', ''disp_x''] 3 disp_comps, Inr (Obj 8)),
      (Create_render_mesh (Obj 7) [''disp_y'', ''disp_x''] 3 disp_comps, Inr (Obj 9)),
      (Scene, Inr (Obj 10)),
      (Add_part (Obj 10) (Obj 8) 3, Inr (Obj 11)),
      (Add_part (Obj 10) (Obj 9) 3, Inr (Obj 12)),
      (Move_blender_obj (Obj 12) [0, 0, 200], Inr (Obj 0)),
      (Rotate_blender_obj (Obj 11) (From_euler ''xyz'' [0, 0, 0] True), Inr (Obj 0)),
      (CameraData (cam_data_0 sideways_config), Inr (Obj 13))]"
  by (simp add: run_eval
       cong: prod.case_cong_weak sum.case_cong_weak option.case_cong_weak)

lemma sideways_store:
  "bdata (snd (script demo_host sideways_config empty_store)) =
     \<lparr>materials = Map.empty,
      objects = [''Part'' \<mapsto> \<lparr>active_material = None\<rparr>, ''Part.001'' \<mapsto> \<lparr>active_material = None\<rparr>]\<rparr>"
  by (simp add: run_eval
       cong: prod.case_cong_weak sum.case_cong_weak option.case_cong_weak)

lemma missing_file_outcome:
  "fst (script missing_file_host script_config empty_store) = Inl (Raised ''FileNotFoundError'')"
  by (simp add: script_def run_def steps missing_file_fields
       cong: prod.case_cong_weak sum.case_cong_weak option.case_cong_weak)

lemma missing_file_trace:
  "trace (snd (script missing_file_host script_config empty_store)) =
     [(Render_mechanical_3d_path, Inr (Obj 1)),
      (ExodusReader (Lib (Obj 1)), Inr (Obj 2)),
      (Read_all_sim_data (Obj 2), Inr (Obj 4)),
      (ExodusReader (Cwd_rel ''moose/input/circular_glass_out.e''), Inl (Raised ''FileNotFoundError''))]"
  by (simp add: script_def run_def steps missing_file_fields
       cong: prod.case_cong_weak sum.case_cong_weak option.case_cong_weak)

lemma bare_outcome:
  "fst (script bare_host script_config empty_store) = Inl (KeyError ''Part.001'')"
  by (simp add: script_def run_def stereo_cameras_def glass_material_def assign_glass_material_def
       steps store_defs bare_fields empty_store_def dot_001_def glass_node_def output_node_def
       principled_node_def demo_tree_def Let_def selector_of_config
       cong: prod.case_cong_weak sum.case_cong_weak option.case_cong_weak)

lemma bare_last:
  "last (trace (snd (script bare_host script_config empty_store))) =
     (Bpy_data (Set_active_material ''Part.001'' ''Material.001''), Inl (KeyError ''Part.001''))"
  by (simp add: script_def run_def stereo_cameras_def glass_material_def assign_glass_material_def
       steps store_defs bare_fields empty_store_def dot_001_def glass_node_def output_node_def
       principled_node_def demo_tree_def Let_def selector_of_config
       cong: prod.case_cong_weak sum.case_cong_weak option.case_cong_weak)

section \<open>The stereo-rig selector\<close>

lemma run_rig_calls:
  "yields (run h cfg) (\<lambda>r evs. rig_calls evs =
     (if stereo_setup cfg = ''symmetric''
      then map (\<lambda>c. Symmetric_stereo_cameras c 15) (camera_built evs)
      else if stereo_setup cfg = ''faceon''
      then map (\<lambda>c. Faceon_stereo_cameras c 10) (camera_built evs)
      else []))"
  unfolding run_unfold
  apply (simp only: run_split cong: if_cong)
  apply (intro yields_run)
  apply (simp_all add: rig_calls_def camera_built_def)
  done

text \<open>
  C2.  In every run, whatever the host answers, the stereo-pair constructors called are
  decided by the selector alone: with \<^verbatim>\<open>"symmetric"\<close> the symmetric constructor at
  15 degrees, once for the camera data built (not at all when building them failed), and
  never the face-on one; with \<^verbatim>\<open>"faceon"\<close> the face-on constructor at 10 degrees and never
  the symmetric one; with any other selector neither.
\<close>

theorem stereo_route_by_selector:
  "rig_calls (trace (snd (script h cfg bd))) =
     (if stereo_setup cfg = ''symmetric''
      then map (\<lambda>c. Symmetric_stereo_cameras c 15) (camera_built (trace (snd (script h cfg bd))))
      else if stereo_setup cfg = ''faceon''
      then map (\<lambda>c. Faceon_stereo_cameras c 10) (camera_built (trace (snd (script h cfg bd))))
      else [])"
  by (rule yields_script[OF run_rig_calls])

theorem stereo_route_by_selector_witness:
  "rig_calls (trace (snd (script demo_host script_config empty_store))) =
     [Faceon_stereo_cameras (Obj 13) 10] \<and>
   rig_calls (trace (snd (script demo_host sideways_config empty_store))) = []"
  using stereo_route_by_selector[of demo_host script_config empty_store]
    stereo_route_by_selector[of demo_host sideways_config empty_store]
  by (simp add: demo_trace sideways_trace camera_built_def selector_of_config)

lemma run_unknown_selector:
  assumes "stereo_setup cfg \<noteq> ''symmetric''" "stereo_setup cfg \<noteq> ''faceon''"
  shows "yields (run h cfg) (\<lambda>r evs.
     (\<exists>e. r = Inl e) \<and> list_all (\<lambda>ev. before_selector (fst ev)) evs \<and> statements evs = [] \<and>
     (list_all succeeded evs \<longrightarrow>
        r = Inl (ValueError (''Unknown stereo_setup: '' @ stereo_setup cfg)) \<and>
        (\<exists>scene m1 m2. constructed evs = [Scene, Add_part scene m1 3, Add_part scene m2 3])))"
  unfolding run_unfold
  apply (simp only: run_split assms if_False)
  apply (intro yields_run)
  apply (simp_all add: constructed_def succeeded_def statements_def)
  done

text \<open>
  C1, as the code has it.  With a selector other than \<^verbatim>\<open>"symmetric"\<close> and \<^verbatim>\<open>"faceon"\<close>
  the run always fails, and it makes no call beyond those of lines 33 to 95 and no
  statement on \<^verbatim>\<open>bpy.data\<close>: no stereo camera pair is constructed or added, nothing is
  calibrated, lit, textured or rendered, and no glass material is made.  When those
  earlier calls all return, the failure is the \<^verbatim>\<open>ValueError\<close> naming the selector, and by
  then the scene and both parts have been constructed.
\<close>

theorem unknown_selector_fails_after_scene:
  assumes "stereo_setup cfg \<noteq> ''symmetric''" "stereo_setup cfg \<noteq> ''faceon''"
  shows "(\<exists>e. fst (script h cfg bd) = Inl e) \<and>
     list_all (\<lambda>ev. before_selector (fst ev)) (trace (snd (script h cfg bd))) \<and>
     statements (trace (snd (script h cfg bd))) = [] \<and>
     (list_all succeeded (trace (snd (script h cfg bd))) \<longrightarrow>
        fst (script h cfg bd) = Inl (ValueError (''Unknown stereo_setup: '' @ stereo_setup cfg)) \<and>
        (\<exists>scene m1 m2. constructed (trace (snd (script h cfg bd))) =
           [Scene, Add_part scene m1 3, Add_part scene m2 3]))"
  by (rule yields_script[OF run_unknown_selector[OF assms]])

theorem unknown_selector_fails_after_scene_witness:
  "(\<exists>e. fst (script missing_file_host sideways_config empty_store) = Inl e) \<and>
   list_all (\<lambda>ev. before_selector (fst ev))
     (trace (snd (script missing_file_host sideways_config empty_store))) \<and>
   fst (script demo_host sideways_config empty_store) =
     Inl (ValueError (''Unknown stereo_setup: '' @ stereo_setup sideways_config))"
  using unknown_selector_fails_after_scene[of sideways_config missing_file_host empty_store]
    unknown_selector_fails_after_scene[of sideways_config demo_host empty_store]
  by (simp add: selector_of_config sideways_trace succeeded_def)

text \<open>
  C1 as stated fails: on a host where every call returns, the run with the selector
  \<^verbatim>\<open>"sideways"\<close> ends in the \<^verbatim>\<open>ValueError\<close> after the scene and both parts were constructed.
\<close>

theorem unknown_selector_counterexample:
  "fst (script demo_host sideways_config empty_store) =
     Inl (ValueError ''Unknown stereo_setup: sideways'') \<and>
   constructed (trace (snd (script demo_host sideways_config empty_store))) =
     [Scene, Add_part (Obj 10) (Obj 8) 3, Add_part (Obj 10) (Obj 9) 3] \<and>
   objects (bdata (snd (script demo_host sideways_config empty_store))) ''Part.001'' =
     Some \<lparr>active_material = None\<rparr>"
  by (simp add: sideways_outcome sideways_trace sideways_store constructed_def succeeded_def)

section \<open>Files read and written\<close>

lemma run_files:
  "yields (run h cfg) (\<lambda>r evs.
     (\<exists>p. prefix (sims_opened evs) [Lib p, Cwd_rel ''moose/input/circular_glass_out.e'']) \<and>
     (r = Inr () \<longrightarrow>
        (\<exists>p sp. (Render_mechanical_3d_path, Inr p) \<in> set evs \<and>
                (Dic_pattern_5mpx_path, Inr sp) \<in> set evs \<and>
                sims_opened evs = [Lib p, Cwd_rel ''moose/input/circular_glass_out.e''] \<and>
                speckle_images evs = [sp] \<and>
                output_dirs evs = [base_dir, base_dir, base_dir])))"
  unfolding run_unfold
  apply (simp only: run_split cong: if_cong)
  apply (intro yields_run)
  apply (simp_all add: sims_opened_def speckle_images_def output_dirs_def)
  done

text \<open>
  C5, as the code has it.  The script hands two files to the simulation reader, never
  more and in this order: the path \<^verbatim>\<open>dataset.render_mechanical_3d_path()\<close> returned and
  \<^verbatim>\<open>moose/input/circular_glass_out.e\<close> under the working directory.  A run that completes
  has read exactly these two, has used one speckle image (the one
  \<^verbatim>\<open>dataset.dic_pattern_5mpx_path()\<close> returned), and has named one output directory,
  \<^verbatim>\<open>blender/glass\<close> under the working directory, for the calibration, the render and the
  project file.
\<close>

theorem reads_two_simulation_files:
  "(\<exists>p. prefix (sims_opened (trace (snd (script h cfg bd))))
           [Lib p, Cwd_rel ''moose/input/circular_glass_out.e'']) \<and>
   (fst (script h cfg bd) = Inr () \<longrightarrow>
      (\<exists>p sp. (Render_mechanical_3d_path, Inr p) \<in> set (trace (snd (script h cfg bd))) \<and>
              (Dic_pattern_5mpx_path, Inr sp) \<in> set (trace (snd (script h cfg bd))) \<and>
              sims_opened (trace (snd (script h cfg bd))) =
                [Lib p, Cwd_rel ''moose/input/circular_glass_out.e''] \<and>
              speckle_images (trace (snd (script h cfg bd))) = [sp] \<and>
              output_dirs (trace (snd (script h cfg bd))) = [base_dir, base_dir, base_dir]))"
  by (rule yields_script[OF run_files])

theorem reads_two_simulation_files_witness:
  "length (sims_opened (trace (snd (script demo_host script_config empty_store)))) = 2 \<and>
   output_dirs (trace (snd (script demo_host script_config empty_store))) =
     [Cwd_rel ''blender/glass'', Cwd_rel ''blender/glass'', Cwd_rel ''blender/glass'']"
  using reads_two_simulation_files[of demo_host script_config empty_store] demo_completes
  by (auto simp: base_dir_def)

text \<open>
  C5 as stated fails: the script as it stands, on a host where every call returns, hands
  two files to the reader, not one.
\<close>

theorem one_simulation_file_counterexample:
  "sims_opened (trace (snd (script demo_host script_config empty_store))) =
     [Lib (Obj 1), Cwd_rel ''moose/input/circular_glass_out.e'']"
  by (simp add: demo_trace sims_opened_def)

section \<open>Failures\<close>

lemma run_propagated:
  "yields (run h cfg) (\<lambda>r evs. propagated cfg r evs \<and>
     (r = Inr () \<longrightarrow> length evs = 42 \<and>
        (\<exists>mat_nodes gm gn im isock om osock. statements evs =
           [Materials_new ''Material.001'',
            Set_use_nodes ''Material.001'' True,
            Node_tree_nodes ''Material.001'',
            Nodes_new mat_nodes ''ShaderNodeBsdfGlass'',
            Set_input_default gm gn ''IOR'' (Num (python_float (glass_ior cfg))),
            Input_socket ''Material.001'' ''Material Output'' ''Surface'',
            Output_socket ''Material.001'' ''Glass BSDF'' ''BSDF'',
            Links_new ''Material.001'' im isock om osock,
            Set_active_material ''Part.001'' ''Material.001''])))"
  unfolding run_unfold
  apply (simp only: run_split cong: if_cong)
  apply (intro yields_run)
  apply (simp_all add: propagated_def succeeded_def own_error_def statements_def)
  done

text \<open>
  C7.  A run that fails ends in one of two ways.  Either the last entry of the trace, a
  collaborator call or a statement on \<^verbatim>\<open>bpy.data\<close>, raised, the run's error is that
  entry's error, unchanged, and everything before it returned: nothing follows what
  raised, so nothing is caught, retried or recovered from.  Or everything returned and
  the error is the script's own \<^verbatim>\<open>ValueError\<close>, which needs a selector other than
  \<^verbatim>\<open>"symmetric"\<close> and \<^verbatim>\<open>"faceon"\<close>.  A run that completes has made all 33 calls and the
  nine statements of lines 137 to 145, the lookups by name among them, and none of them
  raised.
\<close>

theorem failures_propagate_unhandled:
  "propagated cfg (fst (script h cfg bd)) (trace (snd (script h cfg bd))) \<and>
   (fst (script h cfg bd) = Inr () \<longrightarrow>
      length (trace (snd (script h cfg bd))) = 42 \<and>
      (\<exists>mat_nodes gm gn im isock om osock. statements (trace (snd (script h cfg bd))) =
         [Materials_new ''Material.001'',
          Set_use_nodes ''Material.001'' True,
          Node_tree_nodes ''Material.001'',
          Nodes_new mat_nodes ''ShaderNodeBsdfGlass'',
          Set_input_default gm gn ''IOR'' (Num (python_float (glass_ior cfg))),
          Input_socket ''Material.001'' ''Material Output'' ''Surface'',
          Output_socket ''Material.001'' ''Glass BSDF'' ''BSDF'',
          Links_new ''Material.001'' im isock om osock,
          Set_active_material ''Part.001'' ''Material.001'']))"
  by (rule yields_script[OF run_propagated])

theorem failures_propagate_unhandled_witness:
  "fst (script missing_file_host script_config empty_store) = Inl (Raised ''FileNotFoundError'') \<and>
   snd (last (trace (snd (script missing_file_host script_config empty_store)))) =
     Inl (Raised ''FileNotFoundError'') \<and>
   fst (script bare_host script_config empty_store) = Inl (KeyError ''Part.001'') \<and>
   last (trace (snd (script bare_host script_config empty_store))) =
     (Bpy_data (Set_active_material ''Part.001'' ''Material.001''), Inl (KeyError ''Part.001'')) \<and>
   propagated script_config (fst (script bare_host script_config empty_store))
     (trace (snd (script bare_host script_config empty_store))) \<and>
   length (trace (snd (script demo_host script_config empty_store))) = 42"
  using failures_propagate_unhandled[of script_config missing_file_host empty_store]
    failures_propagate_unhandled[of script_config bare_host empty_store]
    failures_propagate_unhandled[of script_config demo_host empty_store]
  by (simp add: missing_file_outcome missing_file_trace bare_outcome bare_last demo_completes)

section \<open>What is deformed\<close>

lemma run_deforms_window:
  "yields (run h cfg) (\<lambda>r evs.
     deform_targets evs = [] \<or>
     (\<exists>p rd1 rd2 s1 s2 sd1 sd2 m1 m2 p1 p2.
        readers_opened evs = [(Lib p, rd1), (Cwd_rel ''moose/input/circular_glass_out.e'', rd2)] \<and>
        sims_read evs = [(rd1, s1), (rd2, s2)] \<and>
        sims_scaled evs = [(s1, sd1), (s2, sd2)] \<and>
        meshes_skinned evs = [(sd1, m1), (sd2, m2)] \<and>
        parts_added evs = [(m1, p1), (m2, p2)] \<and>
        parts_speckled evs = [p1] \<and>
        deform_targets evs = [(m2, p2)]))"
  unfolding run_unfold
  apply (simp only: run_split cong: if_cong)
  apply (intro yields_run)
  apply (simp_all add: deform_targets_def readers_opened_def sims_read_def sims_scaled_def
      meshes_skinned_def parts_added_def parts_speckled_def)
  done

text \<open>
  The arguments of the deformation render.  In every run \<^verbatim>\<open>render_deformed_images\<close> is
  called at most once, and then with the mesh skinned from the scaled data of
  \<^verbatim>\<open>moose/input/circular_glass_out.e\<close> and with what \<^verbatim>\<open>add_part\<close> returned for that mesh
  (\<^verbatim>\<open>window\<close>); the speckle pattern goes to what the first \<^verbatim>\<open>add_part\<close> returned.  What
  the call does to the geometry of either object is decided inside the host and is not
  part of this model.
\<close>

lemma deformation_arguments:
  "deform_targets (trace (snd (script h cfg bd))) = [] \<or>
   (\<exists>p rd1 rd2 s1 s2 sd1 sd2 m1 m2 p1 p2.
      readers_opened (trace (snd (script h cfg bd))) =
        [(Lib p, rd1), (Cwd_rel ''moose/input/circular_glass_out.e'', rd2)] \<and>
      sims_read (trace (snd (script h cfg bd))) = [(rd1, s1), (rd2, s2)] \<and>
      sims_scaled (trace (snd (script h cfg bd))) = [(s1, sd1), (s2, sd2)] \<and>
      meshes_skinned (trace (snd (script h cfg bd))) = [(sd1, m1), (sd2, m2)] \<and>
      parts_added (trace (snd (script h cfg bd))) = [(m1, p1), (m2, p2)] \<and>
      parts_speckled (trace (snd (script h cfg bd))) = [p1] \<and>
      deform_targets (trace (snd (script h cfg bd))) = [(m2, p2)])"
  by (rule yields_script[OF run_deforms_window])

section \<open>Calibration comes first\<close>

lemma agree_call_bind:
  assumes "\<And>e. R [(c, Inl e)] [(c, Inl e)]"
    and "\<And>x. agree (f x) (f' x) (\<lambda>evs evs'. R ((c, Inr x) # evs) ((c, Inr x) # evs'))"
  shows "agree (pbind (call h c) f) (pbind (call h c) f') R"
  unfolding agree_def
proof
  fix s :: state
  obtain r bd where R: "respond h (trace s) c (bdata s) = (r, bd)"
    by (cases "respond h (trace s) c (bdata s)")
  show "\<exists>evs evs'. trace (snd (pbind (call h c) f s)) = trace s @ evs \<and>
          trace (snd (pbind (call h c) f' s)) = trace s @ evs' \<and> R evs evs'"
  proof (cases r)
    case (Inl e)
    then show ?thesis using R assms(1)[of e] by (simp add: pbind_def call_def)
  next
    case (Inr x)
    let ?s = "\<lparr>trace = trace s @ [(c, Inr x)], bdata = bd\<rparr>"
    from assms(2)[of x] obtain evs evs' where
      "trace (snd (f x ?s)) = trace ?s @ evs" "trace (snd (f' x ?s)) = trace ?s @ evs'"
      "R ((c, Inr x) # evs) ((c, Inr x) # evs')"
      unfolding agree_def by blast
    then show ?thesis using R Inr by (simp add: pbind_def call_def)
  qed
qed

lemma agree_if:
  "(b \<Longrightarrow> agree m m' R) \<Longrightarrow> (\<not> b \<Longrightarrow> agree n n' R) \<Longrightarrow>
   agree (if b then m else n) (if b then m' else n') R"
  by simp

lemma agree_raise: "R [] [] \<Longrightarrow> agree (raise e) (raise e) R"
  by (simp add: agree_def raise_def)

lemma agree_any:
  "yields m (\<lambda>_ _. True) \<Longrightarrow> yields m' (\<lambda>_ _. True) \<Longrightarrow> (\<And>evs evs'. R evs evs') \<Longrightarrow> agree m m' R"
  unfolding agree_def yields_def by metis

lemma agree_script:
  "agree (run h cfg) (run h cfg') R \<Longrightarrow>
   R (trace (snd (script h cfg bd))) (trace (snd (script h cfg' bd)))"
  unfolding agree_def script_def
  by (drule spec[where x = "\<lparr>trace = [], bdata = bd\<rparr>"]) auto

lemma run_agree_through_calibration:
  assumes "stereo_setup cfg' = stereo_setup cfg" "cam_data_0 cfg' = cam_data_0 cfg"
  shows "agree (run h cfg) (run h cfg')
           (\<lambda>evs evs'. through_calibration evs = through_calibration evs')"
  unfolding run_unfold
  apply (simp only: run_split assms cong: if_cong)
  apply (intro agree_call_bind agree_if agree_raise)
  apply (simp_all)
  apply (rule agree_any; (intro yields_run)?; simp)+
  done

lemma run_calibration_first:
  "yields (run h cfg) (\<lambda>r evs.
     filter (\<lambda>ev. configures_later (fst ev)) (through_calibration evs) = [] \<and>
     (r = Inr () \<longrightarrow> (\<exists>ss x. (Save_calibration ss base_dir, Inr x) \<in> set evs)))"
  unfolding run_unfold
  apply (simp only: run_split cong: if_cong)
  apply (intro yields_run)
  apply simp_all
  done

text \<open>
  The order around the calibration.  Two runs on the same host and store whose settings
  agree on the selector and on the camera data are the same up to and including the
  \<^verbatim>\<open>save_calibration\<close> call, whatever their light, glass and render settings; nothing
  that configures a light, the speckle material, the glass material or the render comes
  before that call; and a run that completes has made it, into \<^verbatim>\<open>blender/glass\<close> under
  the working directory.  What the call writes is decided inside the host and is not part
  of this model.
\<close>

lemma calibration_before_later_settings:
  assumes "stereo_setup cfg' = stereo_setup cfg" "cam_data_0 cfg' = cam_data_0 cfg"
  shows "through_calibration (trace (snd (script h cfg bd))) =
           through_calibration (trace (snd (script h cfg' bd))) \<and>
         filter (\<lambda>ev. configures_later (fst ev))
           (through_calibration (trace (snd (script h cfg bd)))) = [] \<and>
         (fst (script h cfg bd) = Inr () \<longrightarrow>
            (\<exists>ss x. (Save_calibration ss base_dir, Inr x) \<in> set (trace (snd (script h cfg bd)))))"
  using agree_script[OF run_agree_through_calibration[OF assms], of h bd]
    yields_script[OF run_calibration_first, of h cfg bd]
  by simp

section \<open>The glass material\<close>

lemma ensures_pbind: "(\<And>x. ensures (f x) P) \<Longrightarrow> ensures (pbind m f) P"
  unfolding ensures_def pbind_def
  by (auto split: prod.splits sum.splits) (metis (mono_tags, lifting) case_prod_conv sum.case(2))

lemma ensures_links_new:
  "ensures (on_store st (links_new k inp outp)) (\<lambda>s. materials (bdata s) k \<noteq> None)"
  unfolding ensures_def on_store_def
  by (auto simp: links_new_def put_tree_def tree_of_def materials_getitem_def
      split: prod.splits sum.splits option.splits)

lemma glass_material_registers:
  "ensures (glass_material h cfg) (\<lambda>s. materials (bdata s) ''Material.001'' \<noteq> None)"
  unfolding glass_material_def
  by (intro ensures_pbind ensures_links_new)

lemma glass_material_registered:
  assumes "fst (glass_material h cfg s) = Inr ()"
  shows "materials (bdata (snd (glass_material h cfg s))) ''Material.001'' \<noteq> None"
  using glass_material_registers[of h cfg] assms unfolding ensures_def
  by (cases "glass_material h cfg s") (auto split: sum.splits dest!: spec[where x = s])

text \<open>
  C6.  Once the glass material has been made (lines 137 to 144 completed), line 145 looks
  its target up under the name \<^verbatim>\<open>Part.001\<close> in the object registry; no object returned by
  \<^verbatim>\<open>add_part\<close> takes part in the statement.  If no object is registered under that name
  the statement raises \<^verbatim>\<open>KeyError\<close> and leaves the store as it was; if one is, the
  statement completes, that object's active material is the material registered as
  \<^verbatim>\<open>Material.001\<close>, and nothing else in the store changes.  Either way the statement is
  the next entry of the trace, with its outcome.
\<close>

theorem glass_goes_to_the_object_named_Part_001:
  assumes "fst (glass_material h cfg s) = Inr ()"
  shows "assign_glass_material (snd (glass_material h cfg s)) =
     (case objects (bdata (snd (glass_material h cfg s))) ''Part.001'' of
        None \<Rightarrow>
          (Inl (KeyError ''Part.001''),
           \<lparr>trace = trace (snd (glass_material h cfg s)) @
              [(Bpy_data (Set_active_material ''Part.001'' ''Material.001''), Inl (KeyError ''Part.001''))],
            bdata = bdata (snd (glass_material h cfg s))\<rparr>)
      | Some ob \<Rightarrow>
          (Inr (),
           \<lparr>trace = trace (snd (glass_material h cfg s)) @
              [(Bpy_data (Set_active_material ''Part.001'' ''Material.001''), Inr (Obj 0))],
            bdata = (bdata (snd (glass_material h cfg s)))
                \<lparr>objects := (objects (bdata (snd (glass_material h cfg s))))
                   (''Part.001'' \<mapsto> ob\<lparr>active_material := Some ''Material.001''\<rparr>)\<rparr>\<rparr>))"
  using glass_material_registered[OF assms]
  by (auto simp: assign_glass_material_def on_store_def set_active_material_def
      materials_getitem_def split: option.splits)

lemma glass_on_demo:
  "fst (glass_material demo_host script_config \<lparr>trace = [], bdata = two_parts_store\<rparr>) = Inr ()"
  "fst (glass_material demo_host script_config \<lparr>trace = [], bdata = empty_store\<rparr>) = Inr ()"
  "objects (bdata (snd (glass_material demo_host script_config \<lparr>trace = [], bdata = two_parts_store\<rparr>)))
     ''Part.001'' = Some \<lparr>active_material = None\<rparr>"
  "objects (bdata (snd (glass_material demo_host script_config \<lparr>trace = [], bdata = empty_store\<rparr>)))
     ''Part.001'' = None"
  by (simp_all add: glass_material_def steps store_defs demo_defs two_parts_store_def
       cong: prod.case_cong_weak sum.case_cong_weak option.case_cong_weak)

theorem glass_goes_to_the_object_named_Part_001_witness:
  "fst (assign_glass_material
     (snd (glass_material demo_host script_config \<lparr>trace = [], bdata = two_parts_store\<rparr>))) = Inr () \<and>
   fst (assign_glass_material
     (snd (glass_material demo_host script_config \<lparr>trace = [], bdata = empty_store\<rparr>))) =
     Inl (KeyError ''Part.001'')"
  using glass_goes_to_the_object_named_Part_001[OF glass_on_demo(1)]
    glass_goes_to_the_object_named_Part_001[OF glass_on_demo(2)]
  by (simp add: glass_on_demo)

lemma glass_on_taken:
  "fst (glass_material demo_host script_config \<lparr>trace = [], bdata = taken_store\<rparr>) = Inr ()"
  "linked_into (bdata (snd (glass_material demo_host script_config \<lparr>trace = [], bdata = taken_store\<rparr>)))
     ''Material.001'' ''Material Output'' ''Surface'' = [(''Glass BSDF'', ''BSDF'')]"
  "node_input (bdata (snd (glass_material demo_host script_config \<lparr>trace = [], bdata = taken_store\<rparr>)))
     ''Material.001'' ''Glass BSDF'' ''IOR'' = Some (Num (145 / 100))"
  "node_input (bdata (snd (glass_material demo_host script_config \<lparr>trace = [], bdata = taken_store\<rparr>)))
     ''Material.001'' ''Glass BSDF.001'' ''IOR'' = Some (Num (11556985 / 8388608))"
  by (simp_all add: glass_material_def steps store_defs demo_defs taken_store_def node_input_def
       linked_into_def ior_of_config ior_held
       cong: prod.case_cong_weak sum.case_cong_weak option.case_cong_weak)

text \<open>
  C10, as the code has it.  Take a host that registers the new material under the name
  asked for, \<^verbatim>\<open>Material.001\<close>, and the new glass node under \<^verbatim>\<open>Glass BSDF\<close> (both names are
  free), whose default node tree has a \<^verbatim>\<open>Material Output\<close> node with a \<^verbatim>\<open>Surface\<close> input,
  and whose \<^verbatim>\<open>ShaderNodeBsdfGlass\<close> nodes have an \<^verbatim>\<open>IOR\<close> input and a \<^verbatim>\<open>BSDF\<close> output.
  Then lines 137 to 144 of the script as it stands complete, whatever else the store
  holds, and leave under \<^verbatim>\<open>Material.001\<close> a material with nodes switched on, whose tree
  has the glass node under \<^verbatim>\<open>Glass BSDF\<close>, its \<^verbatim>\<open>IOR\<close> input holding the single-precision
  number nearest to 1.3777, which is 11556985 / 8388608, and exactly one link into the
  \<^verbatim>\<open>Surface\<close> input of \<^verbatim>\<open>Material Output\<close>: the one from that node's \<^verbatim>\<open>BSDF\<close> output.
\<close>

theorem glass_material_built:
  assumes "assigned_name h ''Material.001'' (\<lambda>n. materials (bdata s) n \<noteq> None) = ''Material.001''"
    and "nodes (default_tree h) ''Material Output'' = Some out"
    and "inputs out ''Surface'' = Some v"
    and "node_of_type h ''ShaderNodeBsdfGlass'' = Some (''Glass BSDF'', g)"
    and "inputs g ''IOR'' = Some v0"
    and "''BSDF'' \<in> set (outputs g)"
    and "assigned_name h ''Glass BSDF'' (\<lambda>n. nodes (default_tree h) n \<noteq> None) = ''Glass BSDF''"
  shows "\<exists>s1 t. glass_material h script_config s = (Inr (), s1) \<and>
     materials (bdata s1) ''Material.001'' = Some \<lparr>use_nodes = True, mat_node_tree = Some t\<rparr> \<and>
     nodes t ''Glass BSDF'' = Some (g\<lparr>inputs := (inputs g)(''IOR'' \<mapsto> Num (11556985 / 8388608))\<rparr>) \<and>
     nodes t ''Material Output'' = Some out \<and>
     node_input (bdata s1) ''Material.001'' ''Glass BSDF'' ''IOR'' = Some (Num (11556985 / 8388608)) \<and>
     linked_into (bdata s1) ''Material.001'' ''Material Output'' ''Surface'' = [(''Glass BSDF'', ''BSDF'')]"
  using assms
  by (simp add: glass_material_def steps store_defs Let_def ior_of_config ior_held node_input_def
       linked_into_def
       cong: prod.case_cong_weak sum.case_cong_weak option.case_cong_weak)

theorem glass_material_built_witness:
  "\<exists>s1 t. glass_material demo_host script_config \<lparr>trace = [], bdata = two_parts_store\<rparr> = (Inr (), s1) \<and>
     materials (bdata s1) ''Material.001'' = Some \<lparr>use_nodes = True, mat_node_tree = Some t\<rparr> \<and>
     nodes t ''Glass BSDF'' =
       Some (glass_node\<lparr>inputs := (inputs glass_node)(''IOR'' \<mapsto> Num (11556985 / 8388608))\<rparr>) \<and>
     nodes t ''Material Output'' = Some output_node \<and>
     node_input (bdata s1) ''Material.001'' ''Glass BSDF'' ''IOR'' = Some (Num (11556985 / 8388608)) \<and>
     linked_into (bdata s1) ''Material.001'' ''Material Output'' ''Surface'' = [(''Glass BSDF'', ''BSDF'')]"
  by (rule glass_material_built[where v = "Vec []" and v0 = "Num (145 / 100)"])
     (simp_all add: demo_fields dot_001_def two_parts_store_def demo_tree_def output_node_def
        glass_node_def)

text \<open>
  C10 as stated fails, twice over.  In a store where a material is already registered as
  \<^verbatim>\<open>Material.001\<close>, with a glass node of index 1.45 under \<^verbatim>\<open>Glass BSDF\<close>, lines 137 to 144
  complete on a host that does not give a taken name again: the new material and the new
  node get other names, line 141 sets the index of the new node, and line 143 links the
  old one, so the node linked to \<^verbatim>\<open>Surface\<close> has the index 1.45.  And the index that was
  set is held in single precision: it is 11556985 / 8388608, not 13777 / 10000.
\<close>

theorem glass_material_counterexample:
  "fst (glass_material demo_host script_config \<lparr>trace = [], bdata = taken_store\<rparr>) = Inr () \<and>
   linked_into (bdata (snd (glass_material demo_host script_config \<lparr>trace = [], bdata = taken_store\<rparr>)))
     ''Material.001'' ''Material Output'' ''Surface'' = [(''Glass BSDF'', ''BSDF'')] \<and>
   node_input (bdata (snd (glass_material demo_host script_config \<lparr>trace = [], bdata = taken_store\<rparr>)))
     ''Material.001'' ''Glass BSDF'' ''IOR'' = Some (Num (145 / 100)) \<and>
   node_input (bdata (snd (glass_material demo_host script_config \<lparr>trace = [], bdata = taken_store\<rparr>)))
     ''Material.001'' ''Glass BSDF.001'' ''IOR'' = Some (Num (11556985 / 8388608)) \<and>
   (11556985 / 8388608 :: rat) \<noteq> 13777 / 10000"
  by (simp add: glass_on_taken)

end
